theory Spec2Isabelle
  imports Main "HOL-Library.Word"
begin

section \<open>Engine value types used by the messaging plugin\<close>

text \<open>
  The plugin is written against the engine's value types. They are modelled as follows.
  \<^item> \<open>int32\<close> is a 32-bit word, read as two's complement by \<open>sint\<close>.
  \<^item> \<open>FString\<close> is a character list; \<open>+\<close> on strings is concatenation.
  \<^item> \<open>FName\<close> is a name whose comparison ignores case: a name is represented by the
    text it is compared by, which is the text it was made from with \<open>A\<close>..\<open>Z\<close> folded
    to lower case. (The engine also splits a trailing \<open>_<digits>\<close> off a name; no
    text built in this development contains an underscore.)
  \<^item> a raw pointer (\<open>void*\<close>, \<open>UScriptStruct*\<close>) and a shared pointer to an opaque
    object are the identity of the object pointed to, a natural number, 0 for null.
  \<^item> \<open>FDateTime\<close> is its tick count; the default-constructed value has 0 ticks.
  \<^item> \<open>FSGMessageAddress\<close> is a 128-bit identifier.
  \<^item> \<open>ENamedThreads::Type\<close> is the integer value of the enumerator.
\<close>

type_synonym int32 = "32 word"
type_synonym FString = string
type_synonym ptr = nat
type_synonym FDateTime = int
type_synonym FSGMessageAddress = "128 word"
type_synonym ENamedThreads = int

datatype FName = NAME (name_text: string)

definition nullptr :: ptr where
  "nullptr = 0"

definition ToLower :: "char \<Rightarrow> char" where
  "ToLower c =
     (if 65 \<le> (of_char c :: nat) \<and> (of_char c :: nat) \<le> 90
      then char_of (of_char c + (32 :: nat)) else c)"

text \<open>\<open>FName(const FString&)\<close>: the name made from a text.\<close>

definition FName_of :: "FString \<Rightarrow> FName" where
  "FName_of s = NAME (map ToLower s)"

text \<open>\<open>FName()\<close>: the default name, \<open>NAME_None\<close>.\<close>

definition NAME_None :: FName where
  "NAME_None = FName_of ''None''"

text \<open>\<open>FDateTime()\<close> and \<open>FDateTime::MaxValue()\<close>, the latter being the "never" expiration.\<close>

definition FDateTime_default :: FDateTime where
  "FDateTime_default = 0"

definition FDateTime_MaxValue :: FDateTime where
  "FDateTime_MaxValue = 3155378975999999999"

text \<open>\<open>ENamedThreads::AnyThread\<close>.\<close>

definition AnyThread :: ENamedThreads where
  "AnyThread = 255"

subsection \<open>Decimal rendering of an integer\<close>

text \<open>
  \<open>UKismetStringLibrary::Conv_IntToString\<close> formats its argument with \<open>%d\<close>: an optional
  minus sign, then the decimal digits of the magnitude, most significant first, without
  leading zeros.
\<close>

definition digit_char :: "nat \<Rightarrow> char" where
  "digit_char d = char_of (48 + d)"

fun dec_digits :: "nat \<Rightarrow> string" where
  "dec_digits n =
     (if n < 10 then [digit_char n]
      else dec_digits (n div 10) @ [digit_char (n mod 10)])"

declare dec_digits.simps [simp del]

definition Printf_d :: "int \<Rightarrow> FString" where
  "Printf_d v = (if v < 0 then CHR ''-'' # dec_digits (nat (- v)) else dec_digits (nat v))"

definition Conv_IntToString :: "int32 \<Rightarrow> FString" where
  "Conv_IntToString InInt = Printf_d (sint InInt)"

section \<open>SGMessageTagBuilder.h\<close>

text \<open>
  \<^verbatim>\<open>
  static FName Builder(const int32 InTopicID, const int32 InMessageID)
  {
      return FName(
          UKismetStringLibrary::Conv_IntToString(InTopicID) + ":" +
          UKismetStringLibrary::Conv_IntToString(InMessageID));
  }
  \<close>
\<close>

definition Builder :: "int32 \<Rightarrow> int32 \<Rightarrow> FName" where
  "Builder InTopicID InMessageID =
     FName_of ((Conv_IntToString InTopicID @ '':'') @ Conv_IntToString InMessageID)"

text \<open>
  The canonical string form of a tag in the words of the specification, stated on the
  text alone and without the rendering above. A text is the decimal rendering of an
  integer when it is a minus sign, present exactly for a negative integer, followed by
  the magnitude; and it is a magnitude when it is a non-empty run of the digits \<open>0\<close> to
  \<open>9\<close> with no leading zero whose value, read in base ten, is the number. A text is
  the canonical form \<open><topic>:<message>\<close> when the part before its first colon is the
  decimal rendering of the topic and the part after it that of the message.
\<close>

definition digit_val :: "char \<Rightarrow> nat" where
  "digit_val c = of_char c - 48"

definition digits_val :: "string \<Rightarrow> nat" where
  "digits_val s = foldl (\<lambda>a c. 10 * a + digit_val c) 0 s"

definition is_digit :: "char \<Rightarrow> bool" where
  "is_digit c = (48 \<le> (of_char c :: nat) \<and> (of_char c :: nat) \<le> 57)"

definition is_magnitude_of :: "nat \<Rightarrow> string \<Rightarrow> bool" where
  "is_magnitude_of n ds =
     (ds \<noteq> [] \<and> list_all is_digit ds \<and> \<not> (hd ds = CHR ''0'' \<and> 1 < length ds) \<and>
      digits_val ds = n)"

definition is_decimal_rendering_of :: "int \<Rightarrow> string \<Rightarrow> bool" where
  "is_decimal_rendering_of v s =
     (case s of
        [] \<Rightarrow> False
      | c # ds \<Rightarrow>
          if c = CHR ''-'' then v < 0 \<and> is_magnitude_of (nat (- v)) ds
          else 0 \<le> v \<and> is_magnitude_of (nat v) s)"

definition is_canonical_form :: "int \<Rightarrow> int \<Rightarrow> string \<Rightarrow> bool" where
  "is_canonical_form topic message s =
     (let a = takeWhile (\<lambda>c. c \<noteq> CHR '':'') s;
          b = drop (Suc (length a)) s
      in s = a @ CHR '':'' # b \<and>
         is_decimal_rendering_of topic a \<and> is_decimal_rendering_of message b)"

section \<open>SGMessageContext.h\<close>

text \<open>
  Modelled from the spec: the enumerations \<open>ESGMessageScope\<close> and \<open>ESGMessageFlags\<close> are
  declared in \<open>ISGMessageContext.h\<close>, which is not among the sources. The scopes are
  \<open>Thread\<close>, \<open>Process\<close>, \<open>Network\<close>, \<open>All\<close>, ordered as listed; the flags are a bit set
  with the values \<open>None\<close>, \<open>Reliable\<close> and \<open>Guaranteed\<close>.
\<close>

datatype ESGMessageScope = ScopeThread | ScopeProcess | ScopeNetwork | ScopeAll

fun scope_rank :: "ESGMessageScope \<Rightarrow> nat" where
  "scope_rank ScopeThread = 0"
| "scope_rank ScopeProcess = 1"
| "scope_rank ScopeNetwork = 2"
| "scope_rank ScopeAll = 3"

definition scope_le :: "ESGMessageScope \<Rightarrow> ESGMessageScope \<Rightarrow> bool" where
  "scope_le a b = (scope_rank a \<le> scope_rank b)"

type_synonym ESGMessageFlags = "32 word"

definition ESGMessageFlags_None :: ESGMessageFlags where
  "ESGMessageFlags_None = 0"

definition ESGMessageFlags_Reliable :: ESGMessageFlags where
  "ESGMessageFlags_Reliable = 1"

definition ESGMessageFlags_Guaranteed :: ESGMessageFlags where
  "ESGMessageFlags_Guaranteed = 2"

text \<open>
  The members of \<open>FSGMessageContext\<close>, in the order of their declaration. A context is
  never changed after its construction, so the shared pointer \<open>OriginalContext\<close> is
  modelled by the context it points to (\<open>None\<close> for the null pointer): two shared
  pointers to one immutable context cannot be told apart from two equal contexts.
  The annotations, a \<open>TMap\<close> from name to string, are the list of its pairs, empty
  for the empty map.
\<close>

datatype FSGMessageContext = Context
  (Annotations: "(FName \<times> FString) list")
  (Attachment: ptr)
  (Expiration: FDateTime)
  (MessageTag: FName)
  (Message: ptr)
  (OriginalContext: "FSGMessageContext option")
  (Recipients: "FSGMessageAddress list")
  (Scope: ESGMessageScope)
  (Flags: ESGMessageFlags)
  (Sender: FSGMessageAddress)
  (SenderThread: ENamedThreads)
  (TimeSent: FDateTime)
  (TypeInfo: ptr)

text \<open>
  The originating constructor (lines 44 to 68). Its initialiser list names every member
  but \<open>MessageTag\<close> and \<open>OriginalContext\<close>, which are default-constructed.
\<close>

definition FSGMessageContext_originating ::
  "ptr \<Rightarrow> ptr \<Rightarrow> (FName \<times> FString) list \<Rightarrow> ptr \<Rightarrow> FSGMessageAddress \<Rightarrow>
   FSGMessageAddress list \<Rightarrow> ESGMessageScope \<Rightarrow> ESGMessageFlags \<Rightarrow> FDateTime \<Rightarrow>
   FDateTime \<Rightarrow> ENamedThreads \<Rightarrow> FSGMessageContext" where
  "FSGMessageContext_originating InMessage InTypeInfo InAnnotations InAttachment InSender
       InRecipients InScope InFlags InTimeSent InExpiration InSenderThread =
     Context InAnnotations InAttachment InExpiration NAME_None InMessage None InRecipients
       InScope InFlags InSender InSenderThread InTimeSent InTypeInfo"

text \<open>
  The tagged originating constructor (lines 70 to 94). Its initialiser list names every
  member but \<open>OriginalContext\<close> and \<open>TypeInfo\<close>, which are default-constructed (null).
\<close>

definition FSGMessageContext_tagged ::
  "FName \<Rightarrow> ptr \<Rightarrow> (FName \<times> FString) list \<Rightarrow> ptr \<Rightarrow> FSGMessageAddress \<Rightarrow>
   FSGMessageAddress list \<Rightarrow> ESGMessageScope \<Rightarrow> ESGMessageFlags \<Rightarrow> FDateTime \<Rightarrow>
   FDateTime \<Rightarrow> ENamedThreads \<Rightarrow> FSGMessageContext" where
  "FSGMessageContext_tagged InMessageTag InMessage InAnnotations InAttachment InSender
       InRecipients InScope InFlags InTimeSent InExpiration InSenderThread =
     Context InAnnotations InAttachment InExpiration InMessageTag InMessage None InRecipients
       InScope InFlags InSender InSenderThread InTimeSent nullptr"

text \<open>
  The forwarding constructor (lines 108 to 124). Its initialiser list sets \<open>Message\<close> to
  null, \<open>OriginalContext\<close> to the given context, \<open>Flags\<close> to \<open>ESGMessageFlags::None\<close>, and
  \<open>Recipients\<close>, \<open>Scope\<close>, \<open>Sender\<close>, \<open>SenderThread\<close> and \<open>TimeSent\<close> from its arguments;
  \<open>Annotations\<close>, \<open>Attachment\<close>, \<open>Expiration\<close>, \<open>MessageTag\<close> and \<open>TypeInfo\<close> are
  default-constructed. \<open>InContext\<close> is a shared reference and so never null.
\<close>

definition FSGMessageContext_forwarding ::
  "FSGMessageContext \<Rightarrow> FSGMessageAddress \<Rightarrow> FSGMessageAddress list \<Rightarrow> ESGMessageScope \<Rightarrow>
   FDateTime \<Rightarrow> ENamedThreads \<Rightarrow> FSGMessageContext" where
  "FSGMessageContext_forwarding InContext InForwarder NewRecipients NewScope InTimeForwarded
       InForwarderThread =
     Context [] nullptr FDateTime_default NAME_None nullptr (Some InContext)
       NewRecipients NewScope ESGMessageFlags_None InForwarder InForwarderThread
       InTimeForwarded nullptr"

text \<open>
  Modelled from the spec: the bodies of the accessors \<open>GetMessage\<close>, \<open>GetOriginalContext\<close>
  and \<open>GetFlags\<close> are not among the sources (the header only declares them). The
  specification says of a forwarded context that its payload is aliased from the
  original, with no copy, and that the original context is set; so \<open>GetMessage\<close> of a
  context with an original answers with the original's payload, and of any other
  context with its own \<open>Message\<close>. \<open>GetOriginalContext\<close> and \<open>GetFlags\<close> read the member:
  the specification describes accessors as plain reads and names only payload and type
  as aliased.
\<close>

fun GetMessage :: "FSGMessageContext \<Rightarrow> ptr" where
  "GetMessage (Context an at ex tg msg None rc sc fl sn st ts ti) = msg"
| "GetMessage (Context an at ex tg msg (Some orig) rc sc fl sn st ts ti) = GetMessage orig"

definition GetOriginalContext :: "FSGMessageContext \<Rightarrow> FSGMessageContext option" where
  "GetOriginalContext c = OriginalContext c"

definition GetFlags :: "FSGMessageContext \<Rightarrow> ESGMessageFlags" where
  "GetFlags c = Flags c"

text \<open>The order between send time and expiration that the specification asks of a context.\<close>

definition time_order :: "FSGMessageContext \<Rightarrow> bool" where
  "time_order c = (TimeSent c \<le> Expiration c \<or> Expiration c = FDateTime_MaxValue)"

section \<open>SGMessageEndpointBuilder.h\<close>

text \<open>
  The builder works on shared objects: the bus it was given, of which it keeps a weak
  pointer, and the endpoint it creates, which the bus is handed a pointer to before the
  builder goes on changing it. Both live in an explicit store. A bus or endpoint is
  referred to by its identity; a bus that has been destroyed is absent from the store,
  and a weak pointer to it no longer pins.
\<close>

type_synonym bus_ref = nat
type_synonym endpoint_ref = nat
type_synonym handler_ref = nat

text \<open>A delegate is unbound (\<open>None\<close>) or bound to a callable, known by its identity.\<close>

type_synonym FOnBusNotification = "nat option"

text \<open>The members of \<open>FSGMessageEndpointBuilder\<close> (lines 285 to 304).\<close>

record FSGMessageEndpointBuilder =
  BusPtr :: "bus_ref option"
  Disabled :: bool
  OnNotification :: FOnBusNotification
  Handlers :: "handler_ref list"
  InboxEnabled :: bool
  Name :: FName
  RecipientThread :: ENamedThreads

text \<open>
  Modelled from the spec: \<open>FSGMessageEndpoint\<close> (\<open>SGMessageEndpoint.h\<close>) and the bus behind
  \<open>ISGMessageBus\<close> are not among the sources. An endpoint owns its address, its handlers,
  a notification callback, an enabled flag, an inbox flag (the inbox is disabled by
  default) and a recipient-thread selector, and holds a strong reference to its bus.
  A bus owns the recipient table, from address to endpoint, and the notification
  listeners. Addresses are generated unique in the process; the generated address and
  the value of the recipient-thread selector before it is first set are inputs of the
  model.
\<close>

record FSGMessageEndpoint =
  EP_Address :: FSGMessageAddress
  EP_Bus :: bus_ref
  EP_Enabled :: bool
  EP_Handlers :: "handler_ref list"
  EP_InboxEnabled :: bool
  EP_Name :: FName
  EP_NotificationDelegate :: FOnBusNotification
  EP_RecipientThread :: ENamedThreads

record ISGMessageBus =
  RecipientTable :: "FSGMessageAddress \<rightharpoonup> endpoint_ref"
  NotificationListeners :: "endpoint_ref list"

record World =
  Buses :: "bus_ref \<rightharpoonup> ISGMessageBus"
  Endpoints :: "endpoint_ref \<rightharpoonup> FSGMessageEndpoint"
  NextEndpoint :: endpoint_ref

text \<open>\<open>TWeakPtr::Pin\<close>: a shared pointer to the bus if it is still alive, else null.\<close>

definition Pin :: "World \<Rightarrow> bus_ref option \<Rightarrow> bus_ref option" where
  "Pin w p =
     (case p of
        None \<Rightarrow> None
      | Some r \<Rightarrow> (case Buses w r of None \<Rightarrow> None | Some _ \<Rightarrow> Some r))"

text \<open>\<open>MakeShared<FSGMessageEndpoint>(Name, Bus, Handlers, OnNotification)\<close>.\<close>

definition MakeShared_Endpoint ::
  "FName \<Rightarrow> bus_ref \<Rightarrow> handler_ref list \<Rightarrow> FOnBusNotification \<Rightarrow> FSGMessageAddress \<Rightarrow>
   ENamedThreads \<Rightarrow> World \<Rightarrow> endpoint_ref \<times> World" where
  "MakeShared_Endpoint InName InBus InHandlers InNotification NewAddress InitialThread w =
     (let r = NextEndpoint w;
          e = \<lparr>EP_Address = NewAddress, EP_Bus = InBus, EP_Enabled = True,
               EP_Handlers = InHandlers, EP_InboxEnabled = False, EP_Name = InName,
               EP_NotificationDelegate = InNotification, EP_RecipientThread = InitialThread\<rparr>
      in (r, w\<lparr>Endpoints := (Endpoints w)(r \<mapsto> e), NextEndpoint := Suc r\<rparr>))"

text \<open>A method call on an endpoint of the store changes that endpoint in place.\<close>

definition update_endpoint ::
  "endpoint_ref \<Rightarrow> (FSGMessageEndpoint \<Rightarrow> FSGMessageEndpoint) \<Rightarrow> World \<Rightarrow> World" where
  "update_endpoint r f w =
     (case Endpoints w r of
        None \<Rightarrow> w
      | Some e \<Rightarrow> w\<lparr>Endpoints := (Endpoints w)(r \<mapsto> f e)\<rparr>)"

definition update_bus ::
  "bus_ref \<Rightarrow> (ISGMessageBus \<Rightarrow> ISGMessageBus) \<Rightarrow> World \<Rightarrow> World" where
  "update_bus r f w =
     (case Buses w r of
        None \<Rightarrow> w
      | Some b \<Rightarrow> w\<lparr>Buses := (Buses w)(r \<mapsto> f b)\<rparr>)"

definition Endpoint_Disable :: "endpoint_ref \<Rightarrow> World \<Rightarrow> World" where
  "Endpoint_Disable r = update_endpoint r (\<lambda>e. e\<lparr>EP_Enabled := False\<rparr>)"

definition Endpoint_EnableInbox :: "endpoint_ref \<Rightarrow> World \<Rightarrow> World" where
  "Endpoint_EnableInbox r = update_endpoint r (\<lambda>e. e\<lparr>EP_InboxEnabled := True\<rparr>)"

definition Endpoint_SetRecipientThread :: "endpoint_ref \<Rightarrow> ENamedThreads \<Rightarrow> World \<Rightarrow> World" where
  "Endpoint_SetRecipientThread r NamedThread =
     update_endpoint r (\<lambda>e. e\<lparr>EP_RecipientThread := NamedThread\<rparr>)"

definition Bus_Register :: "bus_ref \<Rightarrow> FSGMessageAddress \<Rightarrow> endpoint_ref \<Rightarrow> World \<Rightarrow> World" where
  "Bus_Register bus Address Recipient =
     update_bus bus (\<lambda>b. b\<lparr>RecipientTable := (RecipientTable b)(Address \<mapsto> Recipient)\<rparr>)"

definition Bus_AddNotificationListener :: "bus_ref \<Rightarrow> endpoint_ref \<Rightarrow> World \<Rightarrow> World" where
  "Bus_AddNotificationListener bus Listener =
     update_bus bus (\<lambda>b. b\<lparr>NotificationListeners := NotificationListeners b @ [Listener]\<rparr>)"

text \<open>\<open>Endpoint->GetAddress()\<close>, read through the store.\<close>

definition Endpoint_GetAddress :: "World \<Rightarrow> endpoint_ref \<Rightarrow> FSGMessageAddress" where
  "Endpoint_GetAddress w r = (case Endpoints w r of None \<Rightarrow> 0 | Some e \<Rightarrow> EP_Address e)"

text \<open>
  The two constructors of the builder (lines 29 to 49). The default bus of the messaging
  module and the current thread come from the engine and are arguments here.
\<close>

definition FSGMessageEndpointBuilder_default ::
  "FName \<Rightarrow> bus_ref option \<Rightarrow> ENamedThreads \<Rightarrow> FSGMessageEndpointBuilder" where
  "FSGMessageEndpointBuilder_default InName DefaultBus CurrentThread =
     \<lparr>BusPtr = DefaultBus, Disabled = False, OnNotification = None, Handlers = [],
      InboxEnabled = False, Name = InName, RecipientThread = CurrentThread\<rparr>"

definition FSGMessageEndpointBuilder_on ::
  "FName \<Rightarrow> bus_ref \<Rightarrow> ENamedThreads \<Rightarrow> FSGMessageEndpointBuilder" where
  "FSGMessageEndpointBuilder_on InName InBus CurrentThread =
     \<lparr>BusPtr = Some InBus, Disabled = False, OnNotification = None, Handlers = [],
      InboxEnabled = False, Name = InName, RecipientThread = CurrentThread\<rparr>"

text \<open>The setters (lines 68 to 230). Each returns the builder it changed.\<close>

definition Handling :: "handler_ref \<Rightarrow> FSGMessageEndpointBuilder \<Rightarrow> FSGMessageEndpointBuilder" where
  "Handling Handler b = b\<lparr>Handlers := Handlers b @ [Handler]\<rparr>"

definition NotificationHandling ::
  "FOnBusNotification \<Rightarrow> FSGMessageEndpointBuilder \<Rightarrow> FSGMessageEndpointBuilder" where
  "NotificationHandling InHandler b = b\<lparr>OnNotification := InHandler\<rparr>"

definition ReceivingOnAnyThread :: "FSGMessageEndpointBuilder \<Rightarrow> FSGMessageEndpointBuilder" where
  "ReceivingOnAnyThread b = b\<lparr>RecipientThread := AnyThread\<rparr>"

definition ReceivingOnThread :: "ENamedThreads \<Rightarrow> FSGMessageEndpointBuilder \<Rightarrow> FSGMessageEndpointBuilder" where
  "ReceivingOnThread NamedThread b = b\<lparr>RecipientThread := NamedThread\<rparr>"

definition ThatIsDisabled :: "FSGMessageEndpointBuilder \<Rightarrow> FSGMessageEndpointBuilder" where
  "ThatIsDisabled b = b\<lparr>Disabled := True\<rparr>"

definition WithCatchall :: "handler_ref \<Rightarrow> FSGMessageEndpointBuilder \<Rightarrow> FSGMessageEndpointBuilder" where
  "WithCatchall Handler b = b\<lparr>Handlers := Handlers b @ [Handler]\<rparr>"

definition WithHandler :: "handler_ref \<Rightarrow> FSGMessageEndpointBuilder \<Rightarrow> FSGMessageEndpointBuilder" where
  "WithHandler Handler b = b\<lparr>Handlers := Handlers b @ [Handler]\<rparr>"

definition WithInbox :: "FSGMessageEndpointBuilder \<Rightarrow> FSGMessageEndpointBuilder" where
  "WithInbox b = b\<lparr>InboxEnabled := True\<rparr>"

text \<open>A chain of setter calls on one builder, applied from left to right.\<close>

datatype BuilderCall =
    Call_Handling handler_ref
  | Call_NotificationHandling FOnBusNotification
  | Call_ReceivingOnAnyThread
  | Call_ReceivingOnThread ENamedThreads
  | Call_ThatIsDisabled
  | Call_WithCatchall handler_ref
  | Call_WithHandler handler_ref
  | Call_WithInbox

fun call :: "FSGMessageEndpointBuilder \<Rightarrow> BuilderCall \<Rightarrow> FSGMessageEndpointBuilder" where
  "call b (Call_Handling h) = Handling h b"
| "call b (Call_NotificationHandling n) = NotificationHandling n b"
| "call b Call_ReceivingOnAnyThread = ReceivingOnAnyThread b"
| "call b (Call_ReceivingOnThread t) = ReceivingOnThread t b"
| "call b Call_ThatIsDisabled = ThatIsDisabled b"
| "call b (Call_WithCatchall h) = WithCatchall h b"
| "call b (Call_WithHandler h) = WithHandler h b"
| "call b Call_WithInbox = WithInbox b"

definition calls :: "FSGMessageEndpointBuilder \<Rightarrow> BuilderCall list \<Rightarrow> FSGMessageEndpointBuilder" where
  "calls b cs = foldl call b cs"

text \<open>
  \<open>Build\<close> (lines 239 to 271). The result is the new endpoint, or null, and the store
  after the calls \<open>Build\<close> made on the bus and on the endpoint.
\<close>

definition Build ::
  "FSGMessageEndpointBuilder \<Rightarrow> FSGMessageAddress \<Rightarrow> ENamedThreads \<Rightarrow> World \<Rightarrow>
   endpoint_ref option \<times> World" where
  "Build b NewAddress InitialThread w =
     (case Pin w (BusPtr b) of
        None \<Rightarrow> (None, w)
      | Some Bus \<Rightarrow>
          (let (Endpoint, w1) =
                 MakeShared_Endpoint (Name b) Bus (Handlers b) (OnNotification b)
                   NewAddress InitialThread w;
               w2 = Bus_Register Bus (Endpoint_GetAddress w1 Endpoint) Endpoint w1;
               w3 = (if OnNotification b \<noteq> None
                     then Bus_AddNotificationListener Bus Endpoint w2 else w2);
               w4 = (if Disabled b then Endpoint_Disable Endpoint w3 else w3);
               w5 = (if InboxEnabled b
                     then Endpoint_SetRecipientThread Endpoint AnyThread
                            (Endpoint_EnableInbox Endpoint w4)
                     else Endpoint_SetRecipientThread Endpoint (RecipientThread b) w4)
           in (Some Endpoint, w5)))"

text \<open>An endpoint is registered with a bus when the bus's recipient table holds it
  under its address.\<close>

definition registered :: "World \<Rightarrow> bus_ref \<Rightarrow> endpoint_ref \<Rightarrow> bool" where
  "registered w bus r =
     (case (Buses w bus, Endpoints w r) of
        (Some b, Some e) \<Rightarrow> RecipientTable b (EP_Address e) = Some r
      | _ \<Rightarrow> False)"

text \<open>The recipient thread of an endpoint of the store, if the endpoint exists.\<close>

definition GetRecipientThread :: "World \<Rightarrow> endpoint_ref \<Rightarrow> ENamedThreads option" where
  "GetRecipientThread w r = map_option EP_RecipientThread (Endpoints w r)"

text \<open>
  A small store for the examples: one live bus, number 0, with nothing registered; the
  same store after that bus was destroyed; and a builder made against bus 0 on thread 3.
\<close>

definition example_world :: World where
  "example_world =
     \<lparr>Buses = [0 \<mapsto> \<lparr>RecipientTable = Map.empty, NotificationListeners = []\<rparr>],
      Endpoints = Map.empty, NextEndpoint = 0\<rparr>"

definition example_world_bus_destroyed :: World where
  "example_world_bus_destroyed = example_world\<lparr>Buses := Map.empty\<rparr>"

definition example_builder :: FSGMessageEndpointBuilder where
  "example_builder = FSGMessageEndpointBuilder_on (FName_of ''Publish-Subscribe'') 0 3"

section \<open>The tag builder\<close>

subsection \<open>The decimal rendering loses nothing\<close>

lemma of_char_digit_char: "d < 10 \<Longrightarrow> of_char (digit_char d) = (48 + d :: nat)"
  by (simp add: digit_char_def)

lemma digit_val_digit_char: "d < 10 \<Longrightarrow> digit_val (digit_char d) = d"
  by (simp add: digit_val_def of_char_digit_char)

lemma digits_val_dec_digits: "digits_val (dec_digits n) = n"
proof (induction n rule: dec_digits.induct)
  case (1 n)
  show ?case
  proof (cases "n < 10")
    case True
    then show ?thesis
      by (simp add: dec_digits.simps [of n] digits_val_def digit_val_digit_char)
  next
    case False
    with 1 have "digits_val (dec_digits (n div 10)) = n div 10" by simp
    with False show ?thesis
      by (simp add: dec_digits.simps [of n] digits_val_def digit_val_digit_char)
  qed
qed

lemma dec_digits_inj: "dec_digits a = dec_digits b \<Longrightarrow> a = b"
  by (metis digits_val_dec_digits)

lemma is_digit_digit_char: "d < 10 \<Longrightarrow> is_digit (digit_char d)"
  by (simp add: is_digit_def of_char_digit_char)

lemma dec_digits_all_digits: "c \<in> set (dec_digits n) \<Longrightarrow> is_digit c"
proof (induction n rule: dec_digits.induct)
  case (1 n)
  show ?case
  proof (cases "n < 10")
    case True
    with "1.prems" show ?thesis
      by (simp add: dec_digits.simps [of n] is_digit_digit_char)
  next
    case False
    with 1 show ?thesis
      by (auto simp: dec_digits.simps [of n] is_digit_digit_char)
  qed
qed

lemma dec_digits_nonempty: "dec_digits n \<noteq> []"
  by (simp add: dec_digits.simps [of n])

lemma hd_dec_digits_is_digit: "is_digit (hd (dec_digits n))"
  by (metis dec_digits_all_digits dec_digits_nonempty hd_in_set)

lemma minus_not_digit: "\<not> is_digit CHR ''-''"
  by (simp add: is_digit_def)

lemma colon_not_digit: "\<not> is_digit CHR '':''"
  by (simp add: is_digit_def)

text \<open>A negative number starts with the sign and no other does, so the sign is read
  off the first character and the magnitude off the digits.\<close>

lemma Printf_d_inj:
  assumes eq: "Printf_d a = Printf_d b"
  shows "a = b"
proof -
  consider "a < 0" "b < 0" | "a < 0" "\<not> b < 0" | "\<not> a < 0" "b < 0" | "\<not> a < 0" "\<not> b < 0"
    by blast
  then show ?thesis
  proof cases
    case 1
    with eq have "nat (- a) = nat (- b)"
      by (simp add: Printf_d_def dec_digits_inj)
    with 1 show ?thesis by simp
  next
    case 2
    with eq have "hd (dec_digits (nat b)) = CHR ''-''"
      by (simp add: Printf_d_def) (metis list.sel(1))
    with hd_dec_digits_is_digit [of "nat b"] minus_not_digit show ?thesis by simp
  next
    case 3
    with eq have "hd (dec_digits (nat a)) = CHR ''-''"
      by (simp add: Printf_d_def)
    with hd_dec_digits_is_digit [of "nat a"] minus_not_digit show ?thesis by simp
  next
    case 4
    with eq have "nat a = nat b"
      by (simp add: Printf_d_def dec_digits_inj)
    with 4 show ?thesis by simp
  qed
qed

lemma Printf_d_chars: "c \<in> set (Printf_d v) \<Longrightarrow> is_digit c \<or> c = CHR ''-''"
  by (auto simp: Printf_d_def dest: dec_digits_all_digits split: if_splits)

lemma colon_notin_Printf_d: "CHR '':'' \<notin> set (Printf_d v)"
  using Printf_d_chars [of "CHR '':''" v] colon_not_digit by auto

lemma Conv_IntToString_inj: "Conv_IntToString a = Conv_IntToString b \<Longrightarrow> a = b"
  unfolding Conv_IntToString_def by (drule Printf_d_inj) (rule signed_word_eqI)

subsection \<open>Folding case leaves a rendered tag as it is\<close>

lemma ToLower_is_digit: "is_digit c \<Longrightarrow> ToLower c = c"
  by (simp add: ToLower_def is_digit_def)

lemma ToLower_minus: "ToLower CHR ''-'' = CHR ''-''"
  by (simp add: ToLower_def)

lemma ToLower_colon: "ToLower CHR '':'' = CHR '':''"
  by (simp add: ToLower_def)

lemma map_ToLower_Printf_d: "map ToLower (Printf_d v) = Printf_d v"
proof (rule map_idI)
  fix c assume "c \<in> set (Printf_d v)"
  then have "is_digit c \<or> c = CHR ''-''" by (rule Printf_d_chars)
  then show "ToLower c = c" by (auto simp: ToLower_is_digit ToLower_minus)
qed

lemma name_text_Builder:
  "name_text (Builder t m) = Conv_IntToString t @ CHR '':'' # Conv_IntToString m"
  by (simp add: Builder_def FName_of_def Conv_IntToString_def map_ToLower_Printf_d ToLower_colon)

lemma Builder_eq_iff: "Builder t1 m1 = Builder t2 m2 \<longleftrightarrow> t1 = t2 \<and> m1 = m2"
proof
  assume "Builder t1 m1 = Builder t2 m2"
  then have "name_text (Builder t1 m1) = name_text (Builder t2 m2)" by simp
  then have "Conv_IntToString t1 @ CHR '':'' # Conv_IntToString m1
           = Conv_IntToString t2 @ CHR '':'' # Conv_IntToString m2"
    by (simp add: name_text_Builder)
  then have "Conv_IntToString t1 = Conv_IntToString t2
           \<and> Conv_IntToString m1 = Conv_IntToString m2"
    by (simp add: append_Cons_eq_iff Conv_IntToString_def colon_notin_Printf_d)
  then show "t1 = t2 \<and> m1 = m2" by (auto dest: Conv_IntToString_inj)
qed simp

lemma Builder_examples:
  "name_text (Builder 1 1) = ''1:1''"
  "name_text (Builder 17 (- 3)) = ''17:-3''"
  "name_text (Builder 0 2147483647) = ''0:2147483647''"
  "name_text (Builder (- 2147483648) 10) = ''-2147483648:10''"
  by (simp_all add: name_text_Builder Conv_IntToString_def Printf_d_def dec_digits.simps
      digit_char_def char_of_def bit_Suc_0_iff)

subsection \<open>The rendering is the decimal rendering\<close>

lemma digit_char_eq_zero: "d < 10 \<Longrightarrow> digit_char d = CHR ''0'' \<Longrightarrow> d = 0"
  using of_char_digit_char [of d] by simp

lemma hd_dec_digits_zero: "hd (dec_digits n) = CHR ''0'' \<Longrightarrow> n = 0"
proof (induction n rule: dec_digits.induct)
  case (1 n)
  show ?case
  proof (cases "n < 10")
    case True
    with "1.prems" show ?thesis
      by (simp add: dec_digits.simps [of n] digit_char_eq_zero)
  next
    case False
    with "1.prems" have "hd (dec_digits (n div 10)) = CHR ''0''"
      by (simp add: dec_digits.simps [of n] dec_digits_nonempty)
    with False 1 have "n div 10 = 0" by simp
    with False show ?thesis by simp
  qed
qed

lemma length_dec_digits_zero: "length (dec_digits 0) = 1"
  by (simp add: dec_digits.simps [of 0])

lemma is_magnitude_of_dec_digits: "is_magnitude_of n (dec_digits n)"
  unfolding is_magnitude_of_def
proof (intro conjI)
  show "dec_digits n \<noteq> []" by (rule dec_digits_nonempty)
  show "list_all is_digit (dec_digits n)"
    by (simp add: list_all_iff dec_digits_all_digits)
  show "\<not> (hd (dec_digits n) = CHR ''0'' \<and> 1 < length (dec_digits n))"
    using hd_dec_digits_zero [of n] length_dec_digits_zero by auto
  show "digits_val (dec_digits n) = n" by (rule digits_val_dec_digits)
qed

lemma Printf_d_is_decimal_rendering: "is_decimal_rendering_of v (Printf_d v)"
proof (cases "v < 0")
  case True
  then show ?thesis
    by (simp add: is_decimal_rendering_of_def Printf_d_def is_magnitude_of_dec_digits)
next
  case False
  obtain c ds where s: "dec_digits (nat v) = c # ds"
    using dec_digits_nonempty [of "nat v"] by (cases "dec_digits (nat v)") auto
  then have "c = hd (dec_digits (nat v))" by simp
  with hd_dec_digits_is_digit [of "nat v"] minus_not_digit have "c \<noteq> CHR ''-''" by auto
  with False s is_magnitude_of_dec_digits [of "nat v"] show ?thesis
    by (simp add: is_decimal_rendering_of_def Printf_d_def)
qed

lemma takeWhile_colon_Printf_d:
  "takeWhile (\<lambda>c. c \<noteq> CHR '':'') (Printf_d v @ CHR '':'' # s) = Printf_d v"
  using colon_notin_Printf_d [of v] by (auto simp: takeWhile_tail)

lemma is_canonical_form_Printf_d:
  "is_canonical_form a b (Printf_d a @ CHR '':'' # Printf_d b)"
  by (simp add: is_canonical_form_def takeWhile_colon_Printf_d Printf_d_is_decimal_rendering)

text \<open>The specification's words leave no choice: a number has one magnitude text, an
  integer one decimal rendering, a tag one canonical form.\<close>

lemma digits_val_snoc: "digits_val (ds @ [c]) = 10 * digits_val ds + digit_val c"
  by (simp add: digits_val_def)

lemma digit_char_digit_val: "is_digit c \<Longrightarrow> digit_char (digit_val c) = c"
  by (simp add: is_digit_def digit_char_def digit_val_def)

lemma digit_val_less: "is_digit c \<Longrightarrow> digit_val c < 10"
  by (auto simp: is_digit_def digit_val_def)

lemma is_magnitude_of_unique: "is_magnitude_of n ds \<Longrightarrow> ds = dec_digits n"
proof (induction ds arbitrary: n rule: rev_induct)
  case Nil
  then show ?case by (simp add: is_magnitude_of_def)
next
  case (snoc c ds)
  from snoc.prems have c: "is_digit c" and all: "list_all is_digit ds"
    and n: "n = 10 * digits_val ds + digit_val c"
    by (simp_all add: is_magnitude_of_def digits_val_snoc)
  show ?case
  proof (cases "ds = []")
    case True
    with n c have "n < 10" "digit_val c = n"
      by (simp_all add: digits_val_def digit_val_less)
    with True c show ?thesis
      using digit_char_digit_val [of c] by (simp add: dec_digits.simps [of n])
  next
    case False
    with snoc.prems have nz: "hd ds \<noteq> CHR ''0''"
      by (auto simp: is_magnitude_of_def)
    have mag: "is_magnitude_of (digits_val ds) ds"
      using False all nz by (simp add: is_magnitude_of_def)
    then have ds: "ds = dec_digits (digits_val ds)" by (rule snoc.IH)
    have "digits_val ds \<noteq> 0"
    proof
      assume "digits_val ds = 0"
      with ds have "ds = dec_digits 0" by simp
      then have "hd ds = CHR ''0''"
        by (simp add: dec_digits.simps [of 0] digit_char_def char_of_def bit_Suc_0_iff)
      with nz show False by simp
    qed
    with n digit_val_less [OF c] have "\<not> n < 10" "n div 10 = digits_val ds"
      "n mod 10 = digit_val c" by auto
    with ds c show ?thesis
      using digit_char_digit_val [of c] by (simp add: dec_digits.simps [of n])
  qed
qed

lemma is_decimal_rendering_of_unique: "is_decimal_rendering_of v s \<Longrightarrow> s = Printf_d v"
proof (cases s)
  case Nil
  assume "is_decimal_rendering_of v s"
  with Nil show ?thesis by (simp add: is_decimal_rendering_of_def)
next
  case (Cons c ds)
  assume r: "is_decimal_rendering_of v s"
  show ?thesis
  proof (cases "c = CHR ''-''")
    case True
    with r Cons have "v < 0" "is_magnitude_of (nat (- v)) ds"
      by (simp_all add: is_decimal_rendering_of_def)
    with Cons True show ?thesis
      by (simp add: Printf_d_def is_magnitude_of_unique)
  next
    case False
    with r Cons have "0 \<le> v" "is_magnitude_of (nat v) s"
      by (simp_all add: is_decimal_rendering_of_def)
    then show ?thesis
      using is_magnitude_of_unique [of "nat v" s] by (simp add: Printf_d_def)
  qed
qed

lemma is_canonical_form_unique:
  "is_canonical_form a b s \<Longrightarrow> is_canonical_form a b s' \<Longrightarrow> s = s'"
  by (metis is_canonical_form_def is_decimal_rendering_of_unique)

lemma is_canonical_form_examples:
  "is_canonical_form 17 (- 3) ''17:-3''"
  "\<not> is_canonical_form 17 (- 3) ''017:-3''"
  "\<not> is_canonical_form 17 (- 3) ''17:3''"
  "\<not> is_canonical_form 17 (- 3) '':''"
  "\<not> is_canonical_form 0 0 ''-0:0''"
  by (simp_all add: is_canonical_form_def is_decimal_rendering_of_def is_magnitude_of_def
      is_digit_def digits_val_def digit_val_def)

text \<open>
  Claim C6. \<open>FSGMessageTagBuilder::Builder\<close> is injective: two pairs of a topic and a
  message that differ never give the same tag.
\<close>

theorem Builder_injective:
  "(t1, m1) \<noteq> (t2, m2) \<Longrightarrow> Builder t1 m1 \<noteq> Builder t2 m2"
  by (simp add: Builder_eq_iff)

text \<open>Claim C6 at the pairs \<open>(1, 2)\<close> and \<open>(2, 1)\<close>, which share their digits.\<close>

theorem Builder_injective_witness:
  "((1, 2) :: int32 \<times> int32) \<noteq> (2, 1) \<and> Builder 1 2 \<noteq> Builder 2 1"
  using Builder_injective [of 1 2 2 1] by simp

text \<open>
  Claim C7. For every topic \<open>t\<close> and message \<open>m\<close>, the text of the name \<open>Builder t m\<close>
  is the canonical form \<open><topic>:<message>\<close>: the decimal rendering of \<open>t\<close>, a colon,
  the decimal rendering of \<open>m\<close>; and \<open>Builder t m\<close> is the name made from that text.
\<close>

theorem Builder_canonical_form:
  "is_canonical_form (sint t) (sint m) (name_text (Builder t m)) \<and>
   Builder t m = FName_of (name_text (Builder t m))"
  by (simp add: name_text_Builder Conv_IntToString_def is_canonical_form_Printf_d)
     (simp add: Builder_def FName_of_def Conv_IntToString_def map_ToLower_Printf_d ToLower_colon)

text \<open>Claim C7 at topic 17 and message -3, whose tag reads \<open>17:-3\<close>.\<close>

theorem Builder_canonical_form_witness:
  "is_canonical_form 17 (- 3) (name_text (Builder 17 (- 3))) \<and>
   name_text (Builder 17 (- 3)) = ''17:-3'' \<and>
   Builder 17 (- 3) = FName_of ''17:-3''"
proof -
  have rendered: "name_text (Builder 17 (- 3)) = ''17:-3''"
    by (simp add: name_text_Builder Conv_IntToString_def Printf_d_def dec_digits.simps
        digit_char_def char_of_def bit_Suc_0_iff)
  show ?thesis
    using Builder_canonical_form [of 17 "- 3"] rendered by simp
qed

section \<open>The message context\<close>

text \<open>The forwarding constructor copies no payload: the new context's own \<open>Message\<close>
  is null, and the payload of a chain of forwards is the payload at its root.\<close>

lemma forward_own_Message_null:
  "Message (FSGMessageContext_forwarding c fw rc sc t th) = nullptr"
  by (simp add: FSGMessageContext_forwarding_def)

lemma GetMessage_originating:
  "GetMessage (FSGMessageContext_originating msg ti an at sn rc sc fl ts ex th) = msg"
  by (simp add: FSGMessageContext_originating_def)

lemma GetMessage_forward_twice:
  "GetMessage (FSGMessageContext_forwarding
      (FSGMessageContext_forwarding c fw rc sc t th) fw' rc' sc' t' th') = GetMessage c"
  by (simp add: FSGMessageContext_forwarding_def)

text \<open>
  Claim C1. A context \<open>F\<close> made by the forwarding constructor from a context \<open>O\<close> has
  the payload pointer of \<open>O\<close>, and \<open>GetOriginalContext\<close> of \<open>F\<close> is \<open>O\<close>. The constructor
  leaves \<open>F\<close>'s own \<open>Message\<close> null and keeps \<open>O\<close>; the payload is reached through it.
\<close>

theorem forward_aliases_payload:
  "GetMessage (FSGMessageContext_forwarding O' InForwarder NewRecipients NewScope
       InTimeForwarded InForwarderThread) = GetMessage O' \<and>
   GetOriginalContext (FSGMessageContext_forwarding O' InForwarder NewRecipients NewScope
       InTimeForwarded InForwarderThread) = Some O'"
  by (simp add: FSGMessageContext_forwarding_def GetOriginalContext_def)

text \<open>
  Claim C4 says that the scope of a forwarded context is at most the scope of its
  original, a wider request being clamped. The forwarding constructor does not clamp:
  forwarding a context of scope \<open>Thread\<close> with the requested scope \<open>All\<close> gives a
  context of scope \<open>All\<close>.
\<close>

theorem forward_scope_counterexample:
  "\<not> scope_le
        (Scope (FSGMessageContext_forwarding
           (FSGMessageContext_originating 1 1 [] nullptr 1 [] ScopeThread
              ESGMessageFlags_None 0 FDateTime_MaxValue AnyThread)
           2 [] ScopeAll 0 AnyThread))
        (Scope (FSGMessageContext_originating 1 1 [] nullptr 1 [] ScopeThread
              ESGMessageFlags_None 0 FDateTime_MaxValue AnyThread))"
  by (simp add: FSGMessageContext_forwarding_def FSGMessageContext_originating_def scope_le_def)

text \<open>
  Claim C4, amended. The forwarding constructor stores the requested scope as it is:
  the scope of the forwarded context is the requested one, and it is at most the
  original's scope exactly when the requested scope is.
\<close>

theorem forward_scope_is_requested:
  "Scope (FSGMessageContext_forwarding O' InForwarder NewRecipients NewScope
       InTimeForwarded InForwarderThread) = NewScope \<and>
   scope_le (Scope (FSGMessageContext_forwarding O' InForwarder NewRecipients NewScope
       InTimeForwarded InForwarderThread)) (Scope O') = scope_le NewScope (Scope O')"
  by (simp add: FSGMessageContext_forwarding_def)

text \<open>
  Claim C5 says that every constructed context has its send time at or before its
  expiration, unless the expiration is "never". The constructors compare nothing: the
  originating constructor called with send time 10 and expiration 5 gives a context
  that breaks the order.
\<close>

theorem time_order_counterexample:
  "\<not> time_order (FSGMessageContext_originating 1 1 [] nullptr 1 [] ScopeProcess
        ESGMessageFlags_None 10 5 AnyThread)"
  by (simp add: time_order_def FSGMessageContext_originating_def FDateTime_MaxValue_def)

text \<open>
  Claim C5, amended. Both originating constructors store the send time and the
  expiration they are given, unchecked; the context they build satisfies the order
  exactly when the arguments do.
\<close>

theorem time_order_as_supplied:
  "TimeSent (FSGMessageContext_originating msg ti an at sn rc sc fl ts ex th) = ts \<and>
   Expiration (FSGMessageContext_originating msg ti an at sn rc sc fl ts ex th) = ex \<and>
   TimeSent (FSGMessageContext_tagged tg msg an at sn rc sc fl ts ex th) = ts \<and>
   Expiration (FSGMessageContext_tagged tg msg an at sn rc sc fl ts ex th) = ex \<and>
   time_order (FSGMessageContext_originating msg ti an at sn rc sc fl ts ex th)
     = (ts \<le> ex \<or> ex = FDateTime_MaxValue) \<and>
   time_order (FSGMessageContext_tagged tg msg an at sn rc sc fl ts ex th)
     = (ts \<le> ex \<or> ex = FDateTime_MaxValue)"
  by (simp add: time_order_def FSGMessageContext_originating_def FSGMessageContext_tagged_def)

text \<open>
  Claim C8 says that a forwarded context carries the flags of its original. The
  forwarding constructor sets \<open>Flags\<close> to \<open>ESGMessageFlags::None\<close>: forwarding a context
  sent with \<open>Reliable\<close> gives a context whose flags are \<open>None\<close>.
\<close>

theorem forward_flags_counterexample:
  "Flags (FSGMessageContext_forwarding
      (FSGMessageContext_originating 1 1 [] nullptr 1 [] ScopeProcess
         ESGMessageFlags_Reliable 0 FDateTime_MaxValue AnyThread)
      2 [] ScopeProcess 0 AnyThread)
   \<noteq> Flags (FSGMessageContext_originating 1 1 [] nullptr 1 [] ScopeProcess
         ESGMessageFlags_Reliable 0 FDateTime_MaxValue AnyThread) \<and>
   GetFlags (FSGMessageContext_forwarding
      (FSGMessageContext_originating 1 1 [] nullptr 1 [] ScopeProcess
         ESGMessageFlags_Reliable 0 FDateTime_MaxValue AnyThread)
      2 [] ScopeProcess 0 AnyThread)
   \<noteq> GetFlags (FSGMessageContext_originating 1 1 [] nullptr 1 [] ScopeProcess
         ESGMessageFlags_Reliable 0 FDateTime_MaxValue AnyThread)"
  by (simp add: GetFlags_def FSGMessageContext_forwarding_def FSGMessageContext_originating_def
      ESGMessageFlags_None_def ESGMessageFlags_Reliable_def)

text \<open>
  Claim C8, amended. \<open>GetFlags\<close> of a context built by either originating constructor
  is the flags given to the constructor. A context built by the forwarding constructor
  has the flags \<open>None\<close> whatever its original's flags are; the original's flags stay as
  they were on the original context, which the forwarded context keeps.
\<close>

theorem flags_on_contexts:
  "GetFlags (FSGMessageContext_originating msg ti an at sn rc sc fl ts ex th) = fl \<and>
   GetFlags (FSGMessageContext_tagged tg msg an at sn rc sc fl ts ex th) = fl \<and>
   Flags (FSGMessageContext_forwarding O' fw rc' sc' t' th') = ESGMessageFlags_None \<and>
   GetFlags (FSGMessageContext_forwarding O' fw rc' sc' t' th') = ESGMessageFlags_None \<and>
   map_option GetFlags (GetOriginalContext (FSGMessageContext_forwarding O' fw rc' sc' t' th'))
     = Some (GetFlags O')"
  by (simp add: GetFlags_def GetOriginalContext_def FSGMessageContext_originating_def
      FSGMessageContext_tagged_def FSGMessageContext_forwarding_def)

text \<open>
  Claim C9 says that the tagged originating constructor leaves \<open>TimeSent\<close> out, so that
  the member is not taken from the send-time argument. The initialiser list of the
  tagged constructor ends with \<open>TimeSent(InTimeSent)\<close>: built with send time 7, the
  context has \<open>TimeSent\<close> 7, not the default-constructed time.
\<close>

theorem tagged_TimeSent_counterexample:
  "TimeSent (FSGMessageContext_tagged (FName_of ''1:1'') 1 [] nullptr 1 [] ScopeProcess
      ESGMessageFlags_None 7 FDateTime_MaxValue AnyThread) = 7 \<and>
   TimeSent (FSGMessageContext_tagged (FName_of ''1:1'') 1 [] nullptr 1 [] ScopeProcess
      ESGMessageFlags_None 7 FDateTime_MaxValue AnyThread) \<noteq> FDateTime_default"
  by (simp add: FSGMessageContext_tagged_def FDateTime_default_def)

text \<open>
  Claim C9, amended. The tagged originating constructor takes \<open>TimeSent\<close> from the
  send-time argument, as the untagged one does. The member it leaves out is \<open>TypeInfo\<close>,
  which stays null; it sets \<open>MessageTag\<close> from its first argument.
\<close>

theorem tagged_sets_TimeSent:
  "TimeSent (FSGMessageContext_tagged tg msg an at sn rc sc fl ts ex th) = ts \<and>
   TimeSent (FSGMessageContext_originating msg ti an at sn rc sc fl ts ex th) = ts \<and>
   TypeInfo (FSGMessageContext_tagged tg msg an at sn rc sc fl ts ex th) = nullptr \<and>
   MessageTag (FSGMessageContext_tagged tg msg an at sn rc sc fl ts ex th) = tg"
  by (simp add: FSGMessageContext_tagged_def FSGMessageContext_originating_def)

text \<open>
  Claim C10. A context built by the forwarding constructor holds, as its own members,
  no annotations, a null attachment and the flags \<open>None\<close>, whatever the original context
  holds: nothing of the original's annotations, attachment or flags is copied.
\<close>

theorem forward_own_fields:
  "Annotations (FSGMessageContext_forwarding O' InForwarder NewRecipients NewScope
       InTimeForwarded InForwarderThread) = [] \<and>
   Attachment (FSGMessageContext_forwarding O' InForwarder NewRecipients NewScope
       InTimeForwarded InForwarderThread) = nullptr \<and>
   Flags (FSGMessageContext_forwarding O' InForwarder NewRecipients NewScope
       InTimeForwarded InForwarderThread) = ESGMessageFlags_None"
  by (simp add: FSGMessageContext_forwarding_def)

section \<open>The endpoint builder\<close>

subsection \<open>The store under the calls that \<open>Build\<close> makes\<close>

lemma Pin_Some_iff: "Pin w p = Some bus \<longleftrightarrow> p = Some bus \<and> Buses w bus \<noteq> None"
  by (auto simp: Pin_def split: option.splits)

lemma Endpoints_update_bus: "Endpoints (update_bus r f w) = Endpoints w"
  by (simp add: update_bus_def split: option.splits)

lemma Buses_update_endpoint: "Buses (update_endpoint r f w) = Buses w"
  by (simp add: update_endpoint_def split: option.splits)

lemma Endpoints_update_endpoint:
  "Endpoints (update_endpoint r f w) =
     (case Endpoints w r of None \<Rightarrow> Endpoints w | Some e \<Rightarrow> (Endpoints w)(r \<mapsto> f e))"
  by (simp add: update_endpoint_def split: option.splits)

lemma Buses_update_bus:
  "Buses (update_bus r f w) =
     (case Buses w r of None \<Rightarrow> Buses w | Some b \<Rightarrow> (Buses w)(r \<mapsto> f b))"
  by (simp add: update_bus_def split: option.splits)

lemma Endpoints_Bus_Register: "Endpoints (Bus_Register bus a r w) = Endpoints w"
  by (simp add: Bus_Register_def Endpoints_update_bus)

lemma Endpoints_Bus_AddNotificationListener:
  "Endpoints (Bus_AddNotificationListener bus r w) = Endpoints w"
  by (simp add: Bus_AddNotificationListener_def Endpoints_update_bus)

lemma Endpoints_dom_update_endpoint:
  "Endpoints w r \<noteq> None \<Longrightarrow> Endpoints (update_endpoint r' f w) r \<noteq> None"
  by (auto simp: Endpoints_update_endpoint split: option.splits)

lemma Build_dead: "Pin w (BusPtr b) = None \<Longrightarrow> Build b a t w = (None, w)"
  by (simp add: Build_def)

lemma fst_Build_alive:
  "Pin w (BusPtr b) = Some bus \<Longrightarrow> fst (Build b a t w) = Some (NextEndpoint w)"
  by (simp add: Build_def MakeShared_Endpoint_def Let_def)

subsection \<open>Registration survives the rest of \<open>Build\<close>\<close>

lemma registered_update_endpoint:
  "registered w bus r \<Longrightarrow> (\<And>e. EP_Address (f e) = EP_Address e) \<Longrightarrow>
   registered (update_endpoint r' f w) bus r"
  by (auto simp: registered_def Endpoints_update_endpoint Buses_update_endpoint
      split: option.splits)

lemma registered_AddNotificationListener:
  "registered w bus r \<Longrightarrow> registered (Bus_AddNotificationListener bus' r' w) bus r"
  by (auto simp: registered_def Bus_AddNotificationListener_def Buses_update_bus
      Endpoints_update_bus split: option.splits)

lemma registered_Disable: "registered w bus r \<Longrightarrow> registered (Endpoint_Disable r' w) bus r"
  by (simp add: Endpoint_Disable_def registered_update_endpoint)

lemma registered_EnableInbox:
  "registered w bus r \<Longrightarrow> registered (Endpoint_EnableInbox r' w) bus r"
  by (simp add: Endpoint_EnableInbox_def registered_update_endpoint)

lemma registered_SetRecipientThread:
  "registered w bus r \<Longrightarrow> registered (Endpoint_SetRecipientThread r' t w) bus r"
  by (simp add: Endpoint_SetRecipientThread_def registered_update_endpoint)

lemma registered_Register_new:
  assumes "Buses w bus = Some B"
    and "MakeShared_Endpoint n bus hs ntf a t w = (r, w1)"
  shows "registered (Bus_Register bus (Endpoint_GetAddress w1 r) r w1) bus r"
  using assms
  by (auto simp: registered_def MakeShared_Endpoint_def Let_def Bus_Register_def
      Endpoint_GetAddress_def Buses_update_bus Endpoints_update_bus split: option.splits)

lemma registered_Build:
  assumes "Pin w (BusPtr b) = Some bus"
  shows "registered (snd (Build b a t w)) bus (NextEndpoint w)"
proof -
  from assms obtain B where B: "Buses w bus = Some B"
    by (auto simp: Pin_Some_iff)
  obtain r w1 where
    mk: "MakeShared_Endpoint (Name b) bus (Handlers b) (OnNotification b) a t w = (r, w1)"
    by (cases "MakeShared_Endpoint (Name b) bus (Handlers b) (OnNotification b) a t w")
  then have r: "r = NextEndpoint w"
    by (auto simp: MakeShared_Endpoint_def Let_def)
  have "registered (Bus_Register bus (Endpoint_GetAddress w1 r) r w1) bus r"
    using B mk by (rule registered_Register_new)
  then show ?thesis
    using assms mk r
    by (simp add: Build_def Let_def registered_AddNotificationListener registered_Disable
        registered_EnableInbox registered_SetRecipientThread)
qed

text \<open>
  Claim C2. \<open>Build\<close> returns null exactly when the builder's weak pointer to the bus no
  longer pins; whenever it pins, \<open>Build\<close> returns an endpoint, and that endpoint is
  registered with the bus.
\<close>

theorem Build_null_iff_bus_destroyed:
  "(fst (Build b a t w) = None \<longleftrightarrow> Pin w (BusPtr b) = None) \<and>
   (\<forall>bus. Pin w (BusPtr b) = Some bus \<longrightarrow>
      (\<exists>r. fst (Build b a t w) = Some r \<and> registered (snd (Build b a t w)) bus r))"
proof (cases "Pin w (BusPtr b)")
  case None
  then show ?thesis by (simp add: Build_dead)
next
  case (Some bus)
  then show ?thesis
    using fst_Build_alive [OF Some, of a t] registered_Build [OF Some, of a t] by simp
qed

text \<open>
  Claim C2 on the example store: against the live bus 0 the builder returns endpoint 0,
  registered with bus 0; after the bus is destroyed it returns null.
\<close>

theorem Build_null_iff_bus_destroyed_witness:
  "Pin example_world (BusPtr example_builder) = Some 0 \<and>
   fst (Build example_builder 77 3 example_world) = Some 0 \<and>
   registered (snd (Build example_builder 77 3 example_world)) 0 0 \<and>
   Pin example_world_bus_destroyed (BusPtr example_builder) = None \<and>
   fst (Build example_builder 77 3 example_world_bus_destroyed) = None"
proof -
  have alive: "Pin example_world (BusPtr example_builder) = Some 0"
    by (simp add: Pin_def example_world_def example_builder_def FSGMessageEndpointBuilder_on_def)
  have dead: "Pin example_world_bus_destroyed (BusPtr example_builder) = None"
    by (simp add: Pin_def example_world_bus_destroyed_def example_builder_def
        FSGMessageEndpointBuilder_on_def)
  have first: "fst (Build example_builder 77 3 example_world) = Some 0"
    using alive by (simp add: Build_def MakeShared_Endpoint_def Let_def example_world_def)
  show ?thesis
    using Build_null_iff_bus_destroyed [of example_builder 77 3 example_world]
      Build_null_iff_bus_destroyed [of example_builder 77 3 example_world_bus_destroyed]
      alive dead first
    by simp
qed

subsection \<open>Once enabled, the inbox stays enabled\<close>

lemma InboxEnabled_call: "InboxEnabled b \<Longrightarrow> InboxEnabled (call b c)"
  by (cases c)
    (simp_all add: Handling_def NotificationHandling_def ReceivingOnAnyThread_def
      ReceivingOnThread_def ThatIsDisabled_def WithCatchall_def WithHandler_def WithInbox_def)

lemma InboxEnabled_foldl: "InboxEnabled b \<Longrightarrow> InboxEnabled (foldl call b cs)"
  by (induction cs arbitrary: b) (simp_all add: InboxEnabled_call)

lemma InboxEnabled_calls: "Call_WithInbox \<in> set cs \<Longrightarrow> InboxEnabled (calls b cs)"
  unfolding calls_def
proof (induction cs arbitrary: b)
  case Nil
  then show ?case by simp
next
  case (Cons c cs)
  show ?case
  proof (cases "c = Call_WithInbox")
    case True
    then show ?thesis by (simp add: WithInbox_def InboxEnabled_foldl)
  next
    case False
    with Cons show ?thesis by simp
  qed
qed

lemma GetRecipientThread_SetRecipientThread:
  "Endpoints w r \<noteq> None \<Longrightarrow>
   GetRecipientThread (Endpoint_SetRecipientThread r t w) r = Some t"
  by (auto simp: GetRecipientThread_def Endpoint_SetRecipientThread_def
      Endpoints_update_endpoint)

lemma Build_inbox_thread:
  assumes "InboxEnabled b" and "fst (Build b a t w) = Some r"
  shows "GetRecipientThread (snd (Build b a t w)) r = Some AnyThread"
proof (cases "Pin w (BusPtr b)")
  case None
  with assms show ?thesis by (simp add: Build_dead)
next
  case (Some bus)
  with assms(2) have r: "r = NextEndpoint w" by (simp add: fst_Build_alive)
  show ?thesis
    using Some assms(1) unfolding r
    by (simp add: Build_def MakeShared_Endpoint_def Let_def
        GetRecipientThread_SetRecipientThread Endpoint_EnableInbox_def Endpoint_Disable_def
        Endpoints_dom_update_endpoint Endpoints_Bus_Register
        Endpoints_Bus_AddNotificationListener)
qed

text \<open>
  Claim C3. If \<open>WithInbox\<close> is among the calls made on a builder, in any position and
  whatever \<open>ReceivingOnThread\<close> or \<open>ReceivingOnAnyThread\<close> calls come before or after it,
  the endpoint that \<open>Build\<close> returns has the recipient thread \<open>AnyThread\<close>.
\<close>

theorem inbox_forces_AnyThread:
  "Call_WithInbox \<in> set cs \<Longrightarrow> fst (Build (calls b cs) a t w) = Some r \<Longrightarrow>
   GetRecipientThread (snd (Build (calls b cs) a t w)) r = Some AnyThread"
  by (rule Build_inbox_thread) (simp_all add: InboxEnabled_calls)

text \<open>
  Claim C3 on the example store, with \<open>WithInbox\<close> followed by \<open>ReceivingOnThread 3\<close>.
\<close>

theorem inbox_forces_AnyThread_witness:
  "Call_WithInbox \<in> set [Call_WithInbox, Call_ReceivingOnThread 3] \<and>
   fst (Build (calls example_builder [Call_WithInbox, Call_ReceivingOnThread 3]) 77 3
          example_world) = Some 0 \<and>
   GetRecipientThread
     (snd (Build (calls example_builder [Call_WithInbox, Call_ReceivingOnThread 3]) 77 3
          example_world)) 0 = Some AnyThread"
proof -
  have first: "fst (Build (calls example_builder [Call_WithInbox, Call_ReceivingOnThread 3])
      77 3 example_world) = Some 0"
    by (simp add: Build_def MakeShared_Endpoint_def Let_def Pin_def example_world_def
        example_builder_def FSGMessageEndpointBuilder_on_def calls_def WithInbox_def
        ReceivingOnThread_def)
  show ?thesis
    using inbox_forces_AnyThread [of "[Call_WithInbox, Call_ReceivingOnThread 3]"
        example_builder 77 3 example_world 0] first
    by simp
qed

end
